theory Spec2Isabelle
  imports Main "HOL-Library.Word" "HOL-Library.Monad_Syntax" "HOL-Library.AList"
begin

unbundle bit_operations_syntax

section \<open>Payload structures of the chained-fixup format\<close>

text \<open>
  Modelled from the spec: the four payload structures are declared in the header
  \<^verbatim>\<open>MachO/ChainedFixup.hpp\<close>, which is not part of the sources at hand. The spec
  describes them as disjoint fixed-width bit fields whose widths are those of the
  platform's published chained-fixup format; these widths are used here. A C++ bit field
  of width \<open>w\<close> is a \<open>w word\<close>: a store into it keeps the low \<open>w\<close> bits (\<open>ucast\<close>).
\<close>

record dyld_chained_ptr_arm64e_rebase =
  arm64e_target :: "43 word"
  arm64e_high8 :: "8 word"
  arm64e_next :: "11 word"
  arm64e_bind :: "1 word"
  arm64e_auth :: "1 word"

record dyld_chained_ptr_arm64e_auth_rebase =
  auth_target :: "32 word"
  auth_diversity :: "16 word"
  auth_addrDiv :: "1 word"
  auth_key :: "2 word"
  auth_next :: "11 word"
  auth_bind :: "1 word"
  auth_auth :: "1 word"

record dyld_chained_ptr_64_rebase =
  p64_target :: "36 word"
  p64_high8 :: "8 word"
  p64_reserved :: "7 word"
  p64_next :: "12 word"
  p64_bind :: "1 word"

record dyld_chained_ptr_32_rebase =
  p32_target :: "26 word"
  p32_next :: "5 word"
  p32_bind :: "1 word"

text \<open>
  Modelled from the spec: \<^verbatim>\<open>unpack_target()\<close> of the two overlay unions
  (\<^verbatim>\<open>dyld_chained_ptr_generic64\<close>, \<^verbatim>\<open>dyld_chained_ptr_arm64e\<close>) and the two
  \<^verbatim>\<open>pack_target\<close> overloads live in the absent header. The spec: unpack reconstructs the
  full target by extracting and concatenating the bit ranges of the layout (the low
  target field and the eight high bits); pack does the inverse, placing the bits without
  disturbing the other fields.
\<close>

definition generic64_unpack_target :: "dyld_chained_ptr_64_rebase \<Rightarrow> 64 word" where
  "generic64_unpack_target rebase =
     push_bit 56 (ucast (p64_high8 rebase)) OR ucast (p64_target rebase)"

definition arm64e_unpack_target :: "dyld_chained_ptr_arm64e_rebase \<Rightarrow> 64 word" where
  "arm64e_unpack_target rebase =
     push_bit 56 (ucast (arm64e_high8 rebase)) OR ucast (arm64e_target rebase)"

definition pack_target_64 ::
  "dyld_chained_ptr_64_rebase \<Rightarrow> 64 word \<Rightarrow> dyld_chained_ptr_64_rebase" where
  "pack_target_64 rebase tgt =
     rebase\<lparr>p64_target := ucast tgt, p64_high8 := ucast (drop_bit 56 tgt)\<rparr>"

definition pack_target_arm64e ::
  "dyld_chained_ptr_arm64e_rebase \<Rightarrow> 64 word \<Rightarrow> dyld_chained_ptr_arm64e_rebase" where
  "pack_target_arm64e rebase tgt =
     rebase\<lparr>arm64e_target := ucast tgt, arm64e_high8 := ucast (drop_bit 56 tgt)\<rparr>"

text \<open>
  The two file-local helpers of \<^verbatim>\<open>RelocationFixup.cpp\<close>: each copies the payload into
  the \<open>rebase\<close> member of the overlay union and unpacks through it.
\<close>

definition unpack_target_64 :: "dyld_chained_ptr_64_rebase \<Rightarrow> 64 word" where
  "unpack_target_64 rebase = generic64_unpack_target rebase"

definition unpack_target_arm64e :: "dyld_chained_ptr_arm64e_rebase \<Rightarrow> 64 word" where
  "unpack_target_arm64e rebase = arm64e_unpack_target rebase"

section \<open>Records, the free store and the diagnostic channel\<close>

type_synonym addr = nat

datatype REBASE_TYPES =
  UNKNOWN | ARM64E_REBASE | ARM64E_AUTH_REBASE | PTR64_REBASE | PTR32_REBASE

text \<open>
  Modelled from the spec: the enumeration \<^verbatim>\<open>RELOCATION_ORIGINS\<close> is declared in an absent
  header; the source names its member \<^verbatim>\<open>ORIGIN_CHAINED_FIXUPS\<close>, the spec's fixed origin
  tag of chained-fixups provenance, and the other members stand for the other
  provenances a relocation can have.
\<close>

datatype RELOCATION_ORIGINS =
  ORIGIN_UNKNOWN | ORIGIN_DYLDINFO | ORIGIN_RELOC_TABLE | ORIGIN_CHAINED_FIXUPS

text \<open>
  Modelled from the spec: the data members of the class are declared in the absent header
  \<^verbatim>\<open>LIEF/MachO/RelocationFixup.hpp\<close>. They are the ones the member functions use:
  \<^verbatim>\<open>ptr_fmt_\<close> (an enumeration, kept as its 16-bit on-disk value), \<^verbatim>\<open>imagebase_\<close> and
  \<^verbatim>\<open>offset_\<close> (both unsigned 64-bit quantities in the spec's address arithmetic),
  \<^verbatim>\<open>rtypes_\<close>, and the anonymous union of the four payload pointers
  \<^verbatim>\<open>arm64_rebase_\<close>, \<^verbatim>\<open>arm64_auth_rebase_\<close>, \<^verbatim>\<open>p64_rebase_\<close>, \<^verbatim>\<open>p32_rebase_\<close>, which
  share one storage cell (\<open>rebase_ptr\<close>; address \<open>0\<close> is the null pointer). The fields
  are named without the trailing underscore of the source.
\<close>

record RelocationFixup =
  ptr_fmt :: "16 word"
  imagebase :: "64 word"
  offset :: "64 word"
  rtypes :: REBASE_TYPES
  rebase_ptr :: addr

datatype chained_ptr =
  Arm64eRebase dyld_chained_ptr_arm64e_rebase
| Arm64eAuthRebase dyld_chained_ptr_arm64e_auth_rebase
| Ptr64Rebase dyld_chained_ptr_64_rebase
| Ptr32Rebase dyld_chained_ptr_32_rebase

datatype LOG_LEVEL = LOG_ERR | LOG_WARN

text \<open>
  The state the member functions run in: the records by address, the payload objects
  of the free store by address, and what has been written to the logger.
\<close>

record memory =
  fixups :: "(addr \<times> RelocationFixup) list"
  payloads :: "(addr \<times> chained_ptr) list"
  messages :: "(LOG_LEVEL \<times> string) list"

definition LIEF_ERR :: "string \<Rightarrow> memory \<Rightarrow> memory" where
  "LIEF_ERR msg m = m\<lparr>messages := messages m @ [(LOG_ERR, msg)]\<rparr>"

definition LIEF_WARN :: "string \<Rightarrow> memory \<Rightarrow> memory" where
  "LIEF_WARN msg m = m\<lparr>messages := messages m @ [(LOG_WARN, msg)]\<rparr>"

definition fixup_at :: "memory \<Rightarrow> addr \<Rightarrow> RelocationFixup option" where
  "fixup_at m this = map_of (fixups m) this"

definition store_fixup :: "addr \<Rightarrow> RelocationFixup \<Rightarrow> memory \<Rightarrow> memory" where
  "store_fixup this r m = m\<lparr>fixups := AList.update this r (fixups m)\<rparr>"

text \<open>
  Reading through a payload pointer. The result is \<open>None\<close> where the pointer does not
  point to a live object of the pointer's type: C++ leaves that access undefined.
\<close>

definition arm64_rebase_at :: "memory \<Rightarrow> addr \<rightharpoonup> dyld_chained_ptr_arm64e_rebase" where
  "arm64_rebase_at m p =
     (case map_of (payloads m) p of Some (Arm64eRebase x) \<Rightarrow> Some x | _ \<Rightarrow> None)"

definition arm64_auth_rebase_at ::
  "memory \<Rightarrow> addr \<rightharpoonup> dyld_chained_ptr_arm64e_auth_rebase" where
  "arm64_auth_rebase_at m p =
     (case map_of (payloads m) p of Some (Arm64eAuthRebase x) \<Rightarrow> Some x | _ \<Rightarrow> None)"

definition p64_rebase_at :: "memory \<Rightarrow> addr \<rightharpoonup> dyld_chained_ptr_64_rebase" where
  "p64_rebase_at m p =
     (case map_of (payloads m) p of Some (Ptr64Rebase x) \<Rightarrow> Some x | _ \<Rightarrow> None)"

definition p32_rebase_at :: "memory \<Rightarrow> addr \<rightharpoonup> dyld_chained_ptr_32_rebase" where
  "p32_rebase_at m p =
     (case map_of (payloads m) p of Some (Ptr32Rebase x) \<Rightarrow> Some x | _ \<Rightarrow> None)"

definition store_payload :: "addr \<Rightarrow> chained_ptr \<Rightarrow> memory \<Rightarrow> memory" where
  "store_payload p c m = m\<lparr>payloads := AList.update p c (payloads m)\<rparr>"

section \<open>Target and address accessors\<close>

text \<open>
  The member functions of \<^verbatim>\<open>RelocationFixup.cpp\<close> take the address \<open>this\<close> of their
  record and the memory, and return the memory they leave. The two \<^verbatim>\<open>target\<close>
  overloads are \<open>target\<close> (the getter) and \<open>target_set\<close>, the two \<^verbatim>\<open>address\<close>
  overloads \<open>address\<close> and \<open>address_set\<close>. Printing, the visitor hook, \<^verbatim>\<open>classof\<close> and
  the defaulted move operations are not modelled.
\<close>

definition target :: "addr \<Rightarrow> memory \<Rightarrow> (64 word \<times> memory) option" where
  "target this m = do {
     r \<leftarrow> fixup_at m this;
     case rtypes r of
       ARM64E_REBASE \<Rightarrow> do {
         x \<leftarrow> arm64_rebase_at m (rebase_ptr r);
         Some (imagebase r + unpack_target_arm64e x, m) }
     | ARM64E_AUTH_REBASE \<Rightarrow> do {
         x \<leftarrow> arm64_auth_rebase_at m (rebase_ptr r);
         Some (imagebase r + ucast (auth_target x), m) }
     | PTR64_REBASE \<Rightarrow> do {
         x \<leftarrow> p64_rebase_at m (rebase_ptr r);
         Some (imagebase r + unpack_target_64 x, m) }
     | PTR32_REBASE \<Rightarrow> do {
         x \<leftarrow> p32_rebase_at m (rebase_ptr r);
         Some (imagebase r + ucast (p32_target x), m) }
     | UNKNOWN \<Rightarrow>
         Some (0, LIEF_ERR ''Can't get target: unknown rebase type'' m) }"

definition target_set :: "addr \<Rightarrow> 64 word \<Rightarrow> memory \<Rightarrow> memory option" where
  "target_set this tgt m = do {
     r \<leftarrow> fixup_at m this;
     case rtypes r of
       ARM64E_REBASE \<Rightarrow> do {
         x \<leftarrow> arm64_rebase_at m (rebase_ptr r);
         let rel_target = (if tgt \<ge> imagebase r then tgt - imagebase r else tgt);
         Some (store_payload (rebase_ptr r)
                 (Arm64eRebase (pack_target_arm64e x rel_target)) m) }
     | ARM64E_AUTH_REBASE \<Rightarrow> do {
         x \<leftarrow> arm64_auth_rebase_at m (rebase_ptr r);
         let rel_target = (if tgt \<ge> imagebase r then tgt - imagebase r else tgt);
         Some (store_payload (rebase_ptr r)
                 (Arm64eAuthRebase (x\<lparr>auth_target := ucast rel_target\<rparr>)) m) }
     | PTR64_REBASE \<Rightarrow> do {
         x \<leftarrow> p64_rebase_at m (rebase_ptr r);
         let rel_target = (if tgt \<ge> imagebase r then tgt - imagebase r else tgt);
         Some (store_payload (rebase_ptr r)
                 (Ptr64Rebase (pack_target_64 x rel_target)) m) }
     | PTR32_REBASE \<Rightarrow>
         Some (LIEF_WARN ''Updating a dyld_chained_ptr_generic32 is not supported yet'' m)
     | UNKNOWN \<Rightarrow>
         Some (LIEF_ERR ''Can't set target: unknown rebase type'' m) }"

definition address :: "addr \<Rightarrow> memory \<Rightarrow> 64 word option" where
  "address this m = do {
     r \<leftarrow> fixup_at m this;
     Some (imagebase r + offset r) }"

definition address_set :: "addr \<Rightarrow> 64 word \<Rightarrow> memory \<Rightarrow> memory option" where
  "address_set this a m = do {
     r \<leftarrow> fixup_at m this;
     Some (store_fixup this (r\<lparr>offset := a - imagebase r\<rparr>) m) }"

definition is_pc_relative :: "addr \<Rightarrow> memory \<Rightarrow> bool" where
  "is_pc_relative this m = False"

definition origin :: "addr \<Rightarrow> memory \<Rightarrow> RELOCATION_ORIGINS" where
  "origin this m = ORIGIN_CHAINED_FIXUPS"

definition pc_relative :: "addr \<Rightarrow> bool \<Rightarrow> memory \<Rightarrow> memory" where
  "pc_relative this b m = m"

section \<open>Construction, population, duplication and teardown\<close>

text \<open>
  \<^verbatim>\<open>new\<close> takes an address of the free store that holds no object (one above the
  largest address in use, so never the null pointer) and puts the object there;
  \<^verbatim>\<open>delete\<close> of a null pointer does nothing, \<^verbatim>\<open>delete\<close> of a live object of the
  pointer's type frees its cell, and any other \<^verbatim>\<open>delete\<close> is undefined (\<open>None\<close>).
\<close>

definition fresh :: "(addr \<times> 'a) list \<Rightarrow> addr" where
  "fresh al = Suc (foldr (\<lambda>kv. max (fst kv)) al 0)"

definition new_payload :: "chained_ptr \<Rightarrow> memory \<Rightarrow> addr \<times> memory" where
  "new_payload c m =
     (let p = fresh (payloads m) in (p, m\<lparr>payloads := (p, c) # payloads m\<rparr>))"

fun tag_of :: "chained_ptr \<Rightarrow> REBASE_TYPES" where
  "tag_of (Arm64eRebase x) = ARM64E_REBASE"
| "tag_of (Arm64eAuthRebase x) = ARM64E_AUTH_REBASE"
| "tag_of (Ptr64Rebase x) = PTR64_REBASE"
| "tag_of (Ptr32Rebase x) = PTR32_REBASE"

definition delete_payload :: "REBASE_TYPES \<Rightarrow> addr \<Rightarrow> memory \<Rightarrow> memory option" where
  "delete_payload t p m =
     (if p = 0 then Some m
      else case map_of (payloads m) p of
             None \<Rightarrow> None
           | Some c \<Rightarrow>
               if tag_of c = t then Some (m\<lparr>payloads := AList.delete p (payloads m)\<rparr>)
               else None)"

text \<open>
  Modelled from the spec: the default member initialisers are in the absent header. The
  constructor of the source sets \<^verbatim>\<open>ptr_fmt_\<close> and \<^verbatim>\<open>imagebase_\<close> only; by the spec a
  record is constructed empty, with tag \<open>UNKNOWN\<close> and no payload (null pointer), and
  its offset starts at zero.
\<close>

definition RelocationFixup_init :: "addr \<Rightarrow> 16 word \<Rightarrow> 64 word \<Rightarrow> memory \<Rightarrow> memory" where
  "RelocationFixup_init this fmt base m =
     store_fixup this
       \<lparr>ptr_fmt = fmt, imagebase = base, offset = 0, rtypes = UNKNOWN, rebase_ptr = 0\<rparr> m"

definition RelocationFixup_destroy :: "addr \<Rightarrow> memory \<Rightarrow> memory option" where
  "RelocationFixup_destroy this m = do {
     r \<leftarrow> fixup_at m this;
     m' \<leftarrow> (case rtypes r of
             ARM64E_REBASE \<Rightarrow> delete_payload ARM64E_REBASE (rebase_ptr r) m
           | ARM64E_AUTH_REBASE \<Rightarrow> delete_payload ARM64E_AUTH_REBASE (rebase_ptr r) m
           | PTR64_REBASE \<Rightarrow> delete_payload PTR64_REBASE (rebase_ptr r) m
           | PTR32_REBASE \<Rightarrow> delete_payload PTR32_REBASE (rebase_ptr r) m
           | UNKNOWN \<Rightarrow> Some m);
     Some (m'\<lparr>fixups := AList.delete this (fixups m')\<rparr>) }"

definition set_arm64e_rebase ::
  "addr \<Rightarrow> dyld_chained_ptr_arm64e_rebase \<Rightarrow> memory \<Rightarrow> memory option" where
  "set_arm64e_rebase this fixup m = do {
     r \<leftarrow> fixup_at m this;
     let (p, m') = new_payload (Arm64eRebase fixup) m;
     Some (store_fixup this (r\<lparr>rtypes := ARM64E_REBASE, rebase_ptr := p\<rparr>) m') }"

definition set_arm64e_auth_rebase ::
  "addr \<Rightarrow> dyld_chained_ptr_arm64e_auth_rebase \<Rightarrow> memory \<Rightarrow> memory option" where
  "set_arm64e_auth_rebase this fixup m = do {
     r \<leftarrow> fixup_at m this;
     let (p, m') = new_payload (Arm64eAuthRebase fixup) m;
     Some (store_fixup this (r\<lparr>rtypes := ARM64E_AUTH_REBASE, rebase_ptr := p\<rparr>) m') }"

definition set_64_rebase ::
  "addr \<Rightarrow> dyld_chained_ptr_64_rebase \<Rightarrow> memory \<Rightarrow> memory option" where
  "set_64_rebase this fixup m = do {
     r \<leftarrow> fixup_at m this;
     let (p, m') = new_payload (Ptr64Rebase fixup) m;
     Some (store_fixup this (r\<lparr>rtypes := PTR64_REBASE, rebase_ptr := p\<rparr>) m') }"

definition set_32_rebase ::
  "addr \<Rightarrow> dyld_chained_ptr_32_rebase \<Rightarrow> memory \<Rightarrow> memory option" where
  "set_32_rebase this fixup m = do {
     r \<leftarrow> fixup_at m this;
     let (p, m') = new_payload (Ptr32Rebase fixup) m;
     Some (store_fixup this (r\<lparr>rtypes := PTR32_REBASE, rebase_ptr := p\<rparr>) m') }"

text \<open>
  Copy assignment: nothing on self-assignment; otherwise the four scalar members are
  copied and, by the new tag, a copy of the other record's payload is allocated and
  its address stored. In the \<open>UNKNOWN\<close> case the pointer member is not assigned.
\<close>

definition operator_assign :: "addr \<Rightarrow> addr \<Rightarrow> memory \<Rightarrow> memory option" where
  "operator_assign this other m =
     (if this = other then Some m
      else do {
        r \<leftarrow> fixup_at m this;
        oth \<leftarrow> fixup_at m other;
        let r' = r\<lparr>ptr_fmt := ptr_fmt oth, imagebase := imagebase oth,
                   offset := offset oth, rtypes := rtypes oth\<rparr>;
        case rtypes oth of
          ARM64E_REBASE \<Rightarrow> do {
            x \<leftarrow> arm64_rebase_at m (rebase_ptr oth);
            let (p, m') = new_payload (Arm64eRebase x) m;
            Some (store_fixup this (r'\<lparr>rebase_ptr := p\<rparr>) m') }
        | ARM64E_AUTH_REBASE \<Rightarrow> do {
            x \<leftarrow> arm64_auth_rebase_at m (rebase_ptr oth);
            let (p, m') = new_payload (Arm64eAuthRebase x) m;
            Some (store_fixup this (r'\<lparr>rebase_ptr := p\<rparr>) m') }
        | PTR64_REBASE \<Rightarrow> do {
            x \<leftarrow> p64_rebase_at m (rebase_ptr oth);
            let (p, m') = new_payload (Ptr64Rebase x) m;
            Some (store_fixup this (r'\<lparr>rebase_ptr := p\<rparr>) m') }
        | PTR32_REBASE \<Rightarrow> do {
            x \<leftarrow> p32_rebase_at m (rebase_ptr oth);
            let (p, m') = new_payload (Ptr32Rebase x) m;
            Some (store_fixup this (r'\<lparr>rebase_ptr := p\<rparr>) m') }
        | UNKNOWN \<Rightarrow> Some (store_fixup this r' m) })"

text \<open>
  The copy constructor builds the record at \<open>this\<close> from the record at \<open>other\<close>. The
  members of the base class \<^verbatim>\<open>Relocation\<close> (absent) are not part of the model. In the
  \<open>UNKNOWN\<close> case the pointer member keeps its default initialiser, the null pointer.
\<close>

definition RelocationFixup_copy :: "addr \<Rightarrow> addr \<Rightarrow> memory \<Rightarrow> memory option" where
  "RelocationFixup_copy this other m = do {
     oth \<leftarrow> fixup_at m other;
     let r = \<lparr>ptr_fmt = ptr_fmt oth, imagebase = imagebase oth, offset = offset oth,
              rtypes = rtypes oth, rebase_ptr = 0\<rparr>;
     case rtypes oth of
       ARM64E_REBASE \<Rightarrow> do {
         x \<leftarrow> arm64_rebase_at m (rebase_ptr oth);
         let (p, m') = new_payload (Arm64eRebase x) m;
         Some (store_fixup this (r\<lparr>rebase_ptr := p\<rparr>) m') }
     | ARM64E_AUTH_REBASE \<Rightarrow> do {
         x \<leftarrow> arm64_auth_rebase_at m (rebase_ptr oth);
         let (p, m') = new_payload (Arm64eAuthRebase x) m;
         Some (store_fixup this (r\<lparr>rebase_ptr := p\<rparr>) m') }
     | PTR64_REBASE \<Rightarrow> do {
         x \<leftarrow> p64_rebase_at m (rebase_ptr oth);
         let (p, m') = new_payload (Ptr64Rebase x) m;
         Some (store_fixup this (r\<lparr>rebase_ptr := p\<rparr>) m') }
     | PTR32_REBASE \<Rightarrow> do {
         x \<leftarrow> p32_rebase_at m (rebase_ptr oth);
         let (p, m') = new_payload (Ptr32Rebase x) m;
         Some (store_fixup this (r\<lparr>rebase_ptr := p\<rparr>) m') }
     | UNKNOWN \<Rightarrow> Some (store_fixup this r m) }"

text \<open>\<^verbatim>\<open>clone()\<close> is \<^verbatim>\<open>new RelocationFixup(*this)\<close>: a new record, copy-constructed.\<close>

definition clone :: "addr \<Rightarrow> memory \<Rightarrow> (addr \<times> memory) option" where
  "clone this m =
     (let c = fresh (fixups m) in do {
        m' \<leftarrow> RelocationFixup_copy c this m;
        Some (c, m') })"

section \<open>Equality\<close>

text \<open>
  Modelled from the spec: \<^verbatim>\<open>Hash::hash\<close> is declared in the absent header
  \<^verbatim>\<open>LIEF/MachO/hash.hpp\<close>. The spec makes the fingerprint content-derived, covering
  the encoding, the payload bits, the offset and the base. The mixing function \<open>H\<close> from
  this content to a \<^verbatim>\<open>size_t\<close> is a parameter. The payload is read through the pointer
  of the record's tag; an \<open>UNKNOWN\<close> record has none.
\<close>

type_synonym hasher = "REBASE_TYPES \<times> chained_ptr option \<times> 64 word \<times> 64 word \<Rightarrow> 64 word"

definition payload_of :: "memory \<Rightarrow> RelocationFixup \<Rightarrow> chained_ptr option option" where
  "payload_of m r =
     (case rtypes r of
        ARM64E_REBASE \<Rightarrow>
          map_option (\<lambda>x. Some (Arm64eRebase x)) (arm64_rebase_at m (rebase_ptr r))
      | ARM64E_AUTH_REBASE \<Rightarrow>
          map_option (\<lambda>x. Some (Arm64eAuthRebase x)) (arm64_auth_rebase_at m (rebase_ptr r))
      | PTR64_REBASE \<Rightarrow>
          map_option (\<lambda>x. Some (Ptr64Rebase x)) (p64_rebase_at m (rebase_ptr r))
      | PTR32_REBASE \<Rightarrow>
          map_option (\<lambda>x. Some (Ptr32Rebase x)) (p32_rebase_at m (rebase_ptr r))
      | UNKNOWN \<Rightarrow> Some None)"

definition Hash_hash :: "hasher \<Rightarrow> addr \<Rightarrow> memory \<Rightarrow> 64 word option" where
  "Hash_hash H a m = do {
     r \<leftarrow> fixup_at m a;
     c \<leftarrow> payload_of m r;
     Some (H (rtypes r, c, offset r, imagebase r)) }"

definition operator_eq :: "hasher \<Rightarrow> addr \<Rightarrow> addr \<Rightarrow> memory \<Rightarrow> bool option" where
  "operator_eq H this rhs m =
     (if this = rhs then Some True
      else do {
        hash_lhs \<leftarrow> Hash_hash H this m;
        hash_rhs \<leftarrow> Hash_hash H rhs m;
        Some (hash_lhs = hash_rhs) })"

definition operator_ne :: "hasher \<Rightarrow> addr \<Rightarrow> addr \<Rightarrow> memory \<Rightarrow> bool option" where
  "operator_ne H this rhs m = map_option Not (operator_eq H this rhs m)"

section \<open>Ownership of payloads\<close>

text \<open>
  The payload addresses some record of a known encoding points to, and the live payloads
  no record points to: these can no longer be released by any destructor.
\<close>

definition owned :: "memory \<Rightarrow> addr list" where
  "owned m = map (rebase_ptr \<circ> snd) (filter (\<lambda>ar. rtypes (snd ar) \<noteq> UNKNOWN) (fixups m))"

definition leaked :: "memory \<Rightarrow> addr list" where
  "leaked m = filter (\<lambda>p. p \<notin> set (owned m)) (map fst (payloads m))"

section \<open>Sequences of calls\<close>

text \<open>A caller that sets the address of one record several times in a row.\<close>

fun address_calls :: "addr \<Rightarrow> 64 word list \<Rightarrow> memory \<Rightarrow> memory option" where
  "address_calls this [] m = Some m"
| "address_calls this (a # as) m = address_set this a m \<bind> address_calls this as"

section \<open>Example records\<close>

text \<open>
  One memory with a record of each encoding (records \<open>1\<close> to \<open>5\<close>, image base
  \<open>0x100000000\<close>), used to run the member functions on concrete inputs.
\<close>

definition ex_arm64e :: dyld_chained_ptr_arm64e_rebase where
  "ex_arm64e = \<lparr>arm64e_target = 0x3000, arm64e_high8 = 0x80, arm64e_next = 4,
                 arm64e_bind = 0, arm64e_auth = 0\<rparr>"

definition ex_auth :: dyld_chained_ptr_arm64e_auth_rebase where
  "ex_auth = \<lparr>auth_target = 0x2000, auth_diversity = 0xBEEF, auth_addrDiv = 1,
               auth_key = 2, auth_next = 5, auth_bind = 0, auth_auth = 1\<rparr>"

definition ex_p64 :: dyld_chained_ptr_64_rebase where
  "ex_p64 = \<lparr>p64_target = 0x1000, p64_high8 = 0, p64_reserved = 0, p64_next = 2,
              p64_bind = 0\<rparr>"

definition ex_p32 :: dyld_chained_ptr_32_rebase where
  "ex_p32 = \<lparr>p32_target = 0x400, p32_next = 1, p32_bind = 0\<rparr>"

definition ex_fixup :: "REBASE_TYPES \<Rightarrow> addr \<Rightarrow> RelocationFixup" where
  "ex_fixup t p = \<lparr>ptr_fmt = 2, imagebase = 0x100000000, offset = 0x4000, rtypes = t,
                    rebase_ptr = p\<rparr>"

definition ex_memory :: memory where
  "ex_memory =
     \<lparr>fixups = [(1, ex_fixup ARM64E_REBASE 1), (2, ex_fixup ARM64E_AUTH_REBASE 2),
                (3, ex_fixup PTR64_REBASE 3), (4, ex_fixup PTR32_REBASE 4),
                (5, ex_fixup UNKNOWN 0)],
      payloads = [(1, Arm64eRebase ex_arm64e), (2, Arm64eAuthRebase ex_auth),
                  (3, Ptr64Rebase ex_p64), (4, Ptr32Rebase ex_p32)],
      messages = []\<rparr>"

definition ex_p64_other :: dyld_chained_ptr_64_rebase where
  "ex_p64_other = \<lparr>p64_target = 0x7000, p64_high8 = 0, p64_reserved = 0, p64_next = 0,
                    p64_bind = 0\<rparr>"

text \<open>A mixing function for the fingerprint, to run equality on the examples.\<close>

fun ex_hasher :: hasher where
  "ex_hasher (t, c, off, base) =
     base + 31 * off
     + (case t of UNKNOWN \<Rightarrow> 0 | ARM64E_REBASE \<Rightarrow> 1 | ARM64E_AUTH_REBASE \<Rightarrow> 2
        | PTR64_REBASE \<Rightarrow> 3 | PTR32_REBASE \<Rightarrow> 4)
     + (case c of None \<Rightarrow> 0 | Some p \<Rightarrow> 5)"

section \<open>Basic facts about the memory\<close>

lemmas ex_defs =
  ex_memory_def ex_fixup_def ex_arm64e_def ex_auth_def ex_p64_def ex_p32_def

lemmas at_defs =
  fixup_at_def arm64_rebase_at_def arm64_auth_rebase_at_def p64_rebase_at_def
  p32_rebase_at_def

lemma ex_fixup_at:
  "fixup_at ex_memory 1 = Some (ex_fixup ARM64E_REBASE 1)"
  "fixup_at ex_memory 2 = Some (ex_fixup ARM64E_AUTH_REBASE 2)"
  "fixup_at ex_memory 3 = Some (ex_fixup PTR64_REBASE 3)"
  "fixup_at ex_memory 4 = Some (ex_fixup PTR32_REBASE 4)"
  "fixup_at ex_memory 5 = Some (ex_fixup UNKNOWN 0)"
  by (simp_all add: ex_memory_def fixup_at_def)

lemma ex_payload_at:
  "arm64_rebase_at ex_memory (rebase_ptr (ex_fixup ARM64E_REBASE 1)) = Some ex_arm64e"
  "arm64_auth_rebase_at ex_memory (rebase_ptr (ex_fixup ARM64E_AUTH_REBASE 2)) = Some ex_auth"
  "p64_rebase_at ex_memory (rebase_ptr (ex_fixup PTR64_REBASE 3)) = Some ex_p64"
  "p32_rebase_at ex_memory (rebase_ptr (ex_fixup PTR32_REBASE 4)) = Some ex_p32"
  by (simp_all add: ex_memory_def ex_fixup_def at_defs)

lemma fixup_at_store_fixup:
  "fixup_at (store_fixup a r m) b = (if b = a then Some r else fixup_at m b)"
  by (simp add: fixup_at_def store_fixup_def update_conv')

lemma fixup_at_store_payload: "fixup_at (store_payload p c m) a = fixup_at m a"
  by (simp add: fixup_at_def store_payload_def)

lemma payload_store_payload:
  "map_of (payloads (store_payload p c m)) q = (if q = p then Some c else map_of (payloads m) q)"
  by (simp add: store_payload_def update_conv')

lemmas run_defs =
  target_def target_set_def fixup_at_def arm64_rebase_at_def arm64_auth_rebase_at_def
  p64_rebase_at_def p32_rebase_at_def store_payload_def pack_target_64_def
  pack_target_arm64e_def unpack_target_64_def unpack_target_arm64e_def
  generic64_unpack_target_def arm64e_unpack_target_def

lemma address_set_fixup:
  assumes "fixup_at m this = Some r"
  shows "address_set this a m = Some (store_fixup this (r\<lparr>offset := a - imagebase r\<rparr>) m)"
  using assms by (simp add: address_set_def)

lemma address_calls_last:
  assumes "fixup_at m this = Some r"
  shows "\<exists>m'. address_calls this as m = Some m'
           \<and> fixup_at m' this =
               Some (if as = [] then r else r\<lparr>offset := last as - imagebase r\<rparr>)"
  using assms
proof (induction as arbitrary: m r)
  case Nil
  then show ?case by simp
next
  case (Cons a as)
  let ?r1 = "r\<lparr>offset := a - imagebase r\<rparr>"
  let ?m1 = "store_fixup this ?r1 m"
  have 1: "address_set this a m = Some ?m1"
    using Cons.prems by (rule address_set_fixup)
  have 2: "fixup_at ?m1 this = Some ?r1"
    by (simp add: fixup_at_store_fixup)
  from Cons.IH [OF 2] obtain m' where
    m': "address_calls this as ?m1 = Some m'"
      "fixup_at m' this = Some (if as = [] then ?r1 else ?r1\<lparr>offset := last as - imagebase ?r1\<rparr>)"
    by blast
  show ?case using 1 m' by simp
qed

lemmas life_defs =
  set_64_rebase_def operator_assign_def RelocationFixup_destroy_def new_payload_def
  fresh_def store_fixup_def delete_payload_def fixup_at_def owned_def leaked_def
  arm64_rebase_at_def

section \<open>Fresh addresses and copies\<close>

lemma keys_le_fresh: "(k, v) \<in> set al \<Longrightarrow> k < fresh al"
  by (induction al) (auto simp add: fresh_def)

lemma fresh_unused: "map_of al (fresh al) = None"
proof (cases "map_of al (fresh al)")
  case None
  then show ?thesis .
next
  case (Some v)
  then have "(fresh al, v) \<in> set al" by (rule map_of_SomeD)
  then have "fresh al < fresh al" by (rule keys_le_fresh)
  then show ?thesis by simp
qed

lemma fresh_not_live: "map_of al k = Some v \<Longrightarrow> k \<noteq> fresh al"
  using fresh_unused [of al] by auto

lemma new_payload_eq:
  "new_payload d m = (fresh (payloads m), m\<lparr>payloads := (fresh (payloads m), d) # payloads m\<rparr>)"
  by (simp add: new_payload_def Let_def)

lemma payload_of_cong:
  "map_of (payloads m') (rebase_ptr r) = map_of (payloads m) (rebase_ptr r)
     \<Longrightarrow> payload_of m' r = payload_of m r"
  by (simp add: payload_of_def arm64_rebase_at_def arm64_auth_rebase_at_def
      p64_rebase_at_def p32_rebase_at_def split: REBASE_TYPES.split)

lemma payload_of_live:
  assumes "payload_of m r = Some (Some d)"
  shows "map_of (payloads m) (rebase_ptr r) = Some d \<and> tag_of d = rtypes r"
  using assms
  by (cases "rtypes r")
    (auto simp add: payload_of_def arm64_rebase_at_def arm64_auth_rebase_at_def
      p64_rebase_at_def p32_rebase_at_def split: option.splits chained_ptr.splits)

lemma payload_of_none:
  assumes "payload_of m r = Some None"
  shows "rtypes r = UNKNOWN"
  using assms by (cases "rtypes r") (auto simp add: payload_of_def)

lemma payload_of_unknown: "rtypes r = UNKNOWN \<Longrightarrow> payload_of m r = Some None"
  by (simp add: payload_of_def)

lemma payload_ofI:
  assumes "map_of (payloads m) (rebase_ptr r) = Some d" and "tag_of d = rtypes r"
  shows "payload_of m r = Some (Some d)"
  using assms
  by (cases d)
    (auto simp add: payload_of_def arm64_rebase_at_def arm64_auth_rebase_at_def
      p64_rebase_at_def p32_rebase_at_def)

lemma copy_known:
  assumes "fixup_at m other = Some oth" and "payload_of m oth = Some (Some d)"
  shows "RelocationFixup_copy this other m =
           Some (store_fixup this
                  \<lparr>ptr_fmt = ptr_fmt oth, imagebase = imagebase oth, offset = offset oth,
                   rtypes = rtypes oth, rebase_ptr = fresh (payloads m)\<rparr>
                  (m\<lparr>payloads := (fresh (payloads m), d) # payloads m\<rparr>))"
  using assms
  by (cases "rtypes oth")
    (auto simp add: RelocationFixup_copy_def payload_of_def new_payload_eq)

lemma copy_unknown:
  assumes "fixup_at m other = Some oth" and "rtypes oth = UNKNOWN"
  shows "RelocationFixup_copy this other m =
           Some (store_fixup this
                  \<lparr>ptr_fmt = ptr_fmt oth, imagebase = imagebase oth, offset = offset oth,
                   rtypes = UNKNOWN, rebase_ptr = 0\<rparr> m)"
  using assms by (simp add: RelocationFixup_copy_def)

lemma assign_known:
  assumes "this \<noteq> other" and "fixup_at m this = Some r" and "fixup_at m other = Some oth"
    and "payload_of m oth = Some (Some d)"
  shows "operator_assign this other m =
           Some (store_fixup this
                  (r\<lparr>ptr_fmt := ptr_fmt oth, imagebase := imagebase oth,
                     offset := offset oth, rtypes := rtypes oth,
                     rebase_ptr := fresh (payloads m)\<rparr>)
                  (m\<lparr>payloads := (fresh (payloads m), d) # payloads m\<rparr>))"
  using assms
  by (cases "rtypes oth")
    (auto simp add: operator_assign_def payload_of_def new_payload_eq)

lemma assign_unknown:
  assumes "this \<noteq> other" and "fixup_at m this = Some r" and "fixup_at m other = Some oth"
    and "rtypes oth = UNKNOWN"
  shows "operator_assign this other m =
           Some (store_fixup this
                  (r\<lparr>ptr_fmt := ptr_fmt oth, imagebase := imagebase oth,
                     offset := offset oth, rtypes := UNKNOWN\<rparr>) m)"
  using assms by (simp add: operator_assign_def)

lemma payloads_store_fixup: "payloads (store_fixup a r m) = payloads m"
  by (simp add: store_fixup_def)

lemma fixup_at_payloads_update: "fixup_at (m\<lparr>payloads := ps\<rparr>) a = fixup_at m a"
  by (simp add: fixup_at_def)

text \<open>
  What a copy (constructed or assigned) leaves behind: the source record with the
  fingerprint it had, and the target with the same fingerprint.
\<close>

lemma copied_content:
  assumes src: "fixup_at m other = Some oth" and c: "payload_of m oth = Some c"
    and ne: "this \<noteq> other"
    and m': "m' = (case c of
                    None \<Rightarrow> store_fixup this r' m
                  | Some d \<Rightarrow> store_fixup this (r'\<lparr>rebase_ptr := fresh (payloads m)\<rparr>)
                               (m\<lparr>payloads := (fresh (payloads m), d) # payloads m\<rparr>))"
    and r': "rtypes r' = rtypes oth" "offset r' = offset oth" "imagebase r' = imagebase oth"
  shows "Hash_hash H other m' = Hash_hash H other m
       \<and> Hash_hash H this m' = Hash_hash H other m"
proof (cases c)
  case None
  with c have u: "rtypes oth = UNKNOWN" by (simp add: payload_of_none)
  from None m' have m'': "m' = store_fixup this r' m" by simp
  have "payload_of m' oth = Some None" "payload_of m' r' = Some None"
    using u r' by (simp_all add: payload_of_unknown)
  moreover have "payload_of m oth = Some None"
    using u by (simp add: payload_of_unknown)
  ultimately show ?thesis
    using src ne r' by (simp add: Hash_hash_def m'' fixup_at_store_fixup)
next
  case (Some d)
  let ?p = "fresh (payloads m)"
  from Some m' have m'': "m' = store_fixup this (r'\<lparr>rebase_ptr := ?p\<rparr>)
                               (m\<lparr>payloads := (?p, d) # payloads m\<rparr>)" by simp
  from c Some have live: "map_of (payloads m) (rebase_ptr oth) = Some d" "tag_of d = rtypes oth"
    using payload_of_live [of m oth d] by simp_all
  from live(1) have np: "rebase_ptr oth \<noteq> ?p" by (rule fresh_not_live)
  have 1: "payload_of m' oth = Some (Some d)"
    using live np by (intro payload_ofI) (simp_all add: m'' payloads_store_fixup)
  have 2: "payload_of m' (r'\<lparr>rebase_ptr := ?p\<rparr>) = Some (Some d)"
    using live r' by (intro payload_ofI) (simp_all add: m'' payloads_store_fixup)
  show ?thesis
    using src ne r' c Some 1 2
    by (simp add: Hash_hash_def m'' fixup_at_store_fixup fixup_at_payloads_update)
qed

lemma Hash_hash_SomeD:
  assumes "Hash_hash H a m = Some h"
  obtains r c where "fixup_at m a = Some r" and "payload_of m r = Some c"
    and "h = H (rtypes r, c, offset r, imagebase r)"
  using assms by (auto simp add: Hash_hash_def split: Option.bind_splits)

lemma operator_eq_hashes:
  assumes "Hash_hash H a m = Some ha" and "Hash_hash H b m = Some hb"
  shows "operator_eq H a b m = Some (ha = hb)"
  using assms by (cases "a = b") (auto simp add: operator_eq_def)

lemma clone_equal:
  assumes h: "Hash_hash H a m = Some ha"
  shows "\<exists>c m'. clone a m = Some (c, m') \<and> c \<noteq> a
           \<and> Hash_hash H c m' = Some ha \<and> Hash_hash H a m' = Some ha
           \<and> (\<exists>r r'. fixup_at m' a = Some r \<and> fixup_at m' c = Some r'
                 \<and> (rtypes r \<noteq> UNKNOWN \<longrightarrow> rebase_ptr r' \<noteq> rebase_ptr r))"
proof -
  from h obtain r c where r: "fixup_at m a = Some r" and c: "payload_of m r = Some c"
    by (rule Hash_hash_SomeD)
  let ?c = "fresh (fixups m)"
  let ?p = "fresh (payloads m)"
  let ?r0 = "\<lparr>ptr_fmt = ptr_fmt r, imagebase = imagebase r, offset = offset r,
              rtypes = rtypes r, rebase_ptr = 0\<rparr>"
  let ?m' = "case c of None \<Rightarrow> store_fixup ?c ?r0 m
             | Some d \<Rightarrow> store_fixup ?c (?r0\<lparr>rebase_ptr := ?p\<rparr>)
                          (m\<lparr>payloads := (?p, d) # payloads m\<rparr>)"
  from r have ne: "?c \<noteq> a"
    using fresh_not_live [of "fixups m" a r] by (simp add: fixup_at_def)
  have cp: "RelocationFixup_copy ?c a m = Some ?m'"
  proof (cases c)
    case None
    with c have "rtypes r = UNKNOWN" by (simp add: payload_of_none)
    with r None show ?thesis by (simp add: copy_unknown)
  next
    case (Some d)
    with r c show ?thesis by (simp add: copy_known)
  qed
  then have cl: "clone a m = Some (?c, ?m')"
    by (simp add: clone_def Let_def)
  have hh: "Hash_hash H a ?m' = Hash_hash H a m \<and> Hash_hash H ?c ?m' = Hash_hash H a m"
    by (rule copied_content [where r' = ?r0, OF r c ne]) simp_all
  have ra: "fixup_at ?m' a = Some r"
    using r ne by (cases c) (simp_all add: fixup_at_store_fixup fixup_at_payloads_update)
  have rc: "\<exists>r'. fixup_at ?m' ?c = Some r'
              \<and> (rtypes r \<noteq> UNKNOWN \<longrightarrow> rebase_ptr r' \<noteq> rebase_ptr r)"
  proof (cases c)
    case None
    with c have "rtypes r = UNKNOWN" by (simp add: payload_of_none)
    with None show ?thesis by (simp add: fixup_at_store_fixup)
  next
    case (Some d)
    with c have "map_of (payloads m) (rebase_ptr r) = Some d"
      using payload_of_live [of m r d] by simp
    then have "rebase_ptr r \<noteq> ?p" by (rule fresh_not_live)
    with Some show ?thesis by (auto simp add: fixup_at_store_fixup)
  qed
  from cl ne hh h ra rc show ?thesis by auto
qed

lemma assign_equal:
  assumes h: "Hash_hash H a m = Some ha" and t: "fixup_at m t = Some rt" and ne: "t \<noteq> a"
  shows "\<exists>m'. operator_assign t a m = Some m'
           \<and> Hash_hash H t m' = Some ha \<and> Hash_hash H a m' = Some ha"
proof -
  from h obtain r c where r: "fixup_at m a = Some r" and c: "payload_of m r = Some c"
    by (rule Hash_hash_SomeD)
  let ?p = "fresh (payloads m)"
  let ?r0 = "rt\<lparr>ptr_fmt := ptr_fmt r, imagebase := imagebase r, offset := offset r,
               rtypes := rtypes r\<rparr>"
  let ?m' = "case c of None \<Rightarrow> store_fixup t ?r0 m
             | Some d \<Rightarrow> store_fixup t (?r0\<lparr>rebase_ptr := ?p\<rparr>)
                          (m\<lparr>payloads := (?p, d) # payloads m\<rparr>)"
  have as: "operator_assign t a m = Some ?m'"
  proof (cases c)
    case None
    with c have "rtypes r = UNKNOWN" by (simp add: payload_of_none)
    with r t ne None show ?thesis by (simp add: assign_unknown)
  next
    case (Some d)
    with r t ne c show ?thesis by (simp add: assign_known)
  qed
  have hh: "Hash_hash H a ?m' = Hash_hash H a m \<and> Hash_hash H t ?m' = Hash_hash H a m"
    by (rule copied_content [where r' = ?r0, OF r c ne]) simp_all
  from as hh h show ?thesis by auto
qed

section \<open>Word facts behind pack and unpack\<close>

lemma hi_lo_split:
  fixes t :: "64 word"
  assumes k: "k \<le> 56"
  shows "(push_bit 56 (take_bit 8 (drop_bit 56 t)) OR take_bit k t = t)
           \<longleftrightarrow> take_bit (56 - k) (drop_bit k t) = 0"
proof
  assume eq: "push_bit 56 (take_bit 8 (drop_bit 56 t)) OR take_bit k t = t"
  show "take_bit (56 - k) (drop_bit k t) = 0"
  proof (rule bit_word_eqI)
    fix n assume "n < LENGTH(64)"
    have "\<not> bit t (k + n)" if "n < 56 - k"
    proof -
      from that have "k + n < 56" by arith
      then have "\<not> bit (push_bit 56 (take_bit 8 (drop_bit 56 t)) OR take_bit k t) (k + n)"
        by (simp add: bit_simps)
      then show ?thesis unfolding eq .
    qed
    then show "bit (take_bit (56 - k) (drop_bit k t)) n = bit (0::64 word) n"
      by (simp add: bit_simps)
  qed
next
  assume z: "take_bit (56 - k) (drop_bit k t) = 0"
  show "push_bit 56 (take_bit 8 (drop_bit 56 t)) OR take_bit k t = t"
  proof (rule bit_word_eqI)
    fix n assume n: "n < LENGTH(64)"
    have "\<not> bit (take_bit (56 - k) (drop_bit k t)) (n - k)" by (simp add: z)
    then have mid: "\<not> bit t n" if "k \<le> n" "n < 56"
      using that by (simp add: bit_simps)
    show "bit (push_bit 56 (take_bit 8 (drop_bit 56 t)) OR take_bit k t) n = bit t n"
    proof (cases "n < k")
      case True
      then show ?thesis using k by (simp add: bit_simps)
    next
      case False
      show ?thesis
      proof (cases "n < 56")
        case True
        with False mid show ?thesis by (simp add: bit_simps)
      next
        case False
        with n have "n - 56 < 8" by simp
        with False n k show ?thesis by (simp add: bit_simps)
      qed
    qed
  qed
qed

lemma ucast_down_up_8: "(ucast (ucast (t::64 word) :: 8 word) :: 64 word) = take_bit 8 t"
  by (rule bit_word_eqI) (simp add: bit_simps)

lemma ucast_down_up_32: "(ucast (ucast (t::64 word) :: 32 word) :: 64 word) = take_bit 32 t"
  by (rule bit_word_eqI) (simp add: bit_simps)

lemma ucast_down_up_36: "(ucast (ucast (t::64 word) :: 36 word) :: 64 word) = take_bit 36 t"
  by (rule bit_word_eqI) (simp add: bit_simps)

lemma ucast_down_up_43: "(ucast (ucast (t::64 word) :: 43 word) :: 64 word) = take_bit 43 t"
  by (rule bit_word_eqI) (simp add: bit_simps)

lemma unpack_pack_arm64e:
  "unpack_target_arm64e (pack_target_arm64e x t) = t \<longleftrightarrow> take_bit 13 (drop_bit 43 t) = 0"
  using hi_lo_split [of 43 t]
  by (simp add: unpack_target_arm64e_def arm64e_unpack_target_def pack_target_arm64e_def
      ucast_down_up_8 ucast_down_up_43)

lemma unpack_pack_64:
  "unpack_target_64 (pack_target_64 x t) = t \<longleftrightarrow> take_bit 20 (drop_bit 36 t) = 0"
  using hi_lo_split [of 36 t]
  by (simp add: unpack_target_64_def generic64_unpack_target_def pack_target_64_def
      ucast_down_up_8 ucast_down_up_36)

lemma auth_store_load:
  "(ucast (ucast t :: 32 word) :: 64 word) = t \<longleftrightarrow> t < 2 ^ 32"
  by (simp add: ucast_down_up_32 take_bit_eq_mask mask_eq_iff_w2p word_size)

lemma base_plus_eq: "b + x = v \<longleftrightarrow> x = v - b" for b x v :: "64 word"
  by auto

section \<open>The target getter\<close>

text \<open>
  Claim C1. For a record of each of the four encodings with a payload, \<open>target()\<close>
  returns the image base plus the relative target decoded from the active payload:
  through the per-encoding unpack for \<open>ARM64E_REBASE\<close> and \<open>PTR64_REBASE\<close>, the
  target field itself for \<open>ARM64E_AUTH_REBASE\<close> and \<open>PTR32_REBASE\<close>. In particular
  a \<open>PTR64_REBASE\<close> payload with target bits \<open>0x1000\<close> under image base
  \<open>0x100000000\<close> gives \<open>0x100001000\<close>.
\<close>

theorem target_decodes_payload:
  assumes "fixup_at m this = Some r"
  shows "(rtypes r = ARM64E_REBASE \<longrightarrow> arm64_rebase_at m (rebase_ptr r) = Some a \<longrightarrow>
            target this m = Some (imagebase r + unpack_target_arm64e a, m))
       \<and> (rtypes r = ARM64E_AUTH_REBASE \<longrightarrow>
            arm64_auth_rebase_at m (rebase_ptr r) = Some b \<longrightarrow>
            target this m = Some (imagebase r + ucast (auth_target b), m))
       \<and> (rtypes r = PTR64_REBASE \<longrightarrow> p64_rebase_at m (rebase_ptr r) = Some c \<longrightarrow>
            target this m = Some (imagebase r + unpack_target_64 c, m))
       \<and> (rtypes r = PTR32_REBASE \<longrightarrow> p32_rebase_at m (rebase_ptr r) = Some d \<longrightarrow>
            target this m = Some (imagebase r + ucast (p32_target d), m))
       \<and> (rtypes r = PTR64_REBASE \<longrightarrow> p64_rebase_at m (rebase_ptr r) = Some c \<longrightarrow>
            p64_target c = 0x1000 \<longrightarrow> p64_high8 c = 0 \<longrightarrow> imagebase r = 0x100000000 \<longrightarrow>
            target this m = Some (0x100001000, m))"
  using assms
  by (simp add: target_def unpack_target_64_def generic64_unpack_target_def)

theorem target_decodes_payload_witness:
  "fixup_at ex_memory 1 = Some (ex_fixup ARM64E_REBASE 1)
   \<and> fixup_at ex_memory 2 = Some (ex_fixup ARM64E_AUTH_REBASE 2)
   \<and> fixup_at ex_memory 3 = Some (ex_fixup PTR64_REBASE 3)
   \<and> fixup_at ex_memory 4 = Some (ex_fixup PTR32_REBASE 4)
   \<and> target 1 ex_memory = Some (0x8000000100003000, ex_memory)
   \<and> target 2 ex_memory = Some (0x100002000, ex_memory)
   \<and> target 3 ex_memory = Some (0x100001000, ex_memory)
   \<and> target 4 ex_memory = Some (0x100000400, ex_memory)"
proof -
  have "target 1 ex_memory = Some (0x8000000100003000, ex_memory)"
    using target_decodes_payload [OF ex_fixup_at(1), of ex_arm64e] ex_payload_at(1)
    by (simp add: ex_fixup_def ex_arm64e_def unpack_target_arm64e_def
        arm64e_unpack_target_def)
  moreover have "target 2 ex_memory = Some (0x100002000, ex_memory)"
    using target_decodes_payload [OF ex_fixup_at(2), of _ ex_auth] ex_payload_at(2)
    by (simp add: ex_fixup_def ex_auth_def)
  moreover have "target 3 ex_memory = Some (0x100001000, ex_memory)"
    using target_decodes_payload [OF ex_fixup_at(3), of _ _ ex_p64] ex_payload_at(3)
    by (simp add: ex_fixup_def ex_p64_def unpack_target_64_def generic64_unpack_target_def)
  moreover have "target 4 ex_memory = Some (0x100000400, ex_memory)"
    using target_decodes_payload [OF ex_fixup_at(4), of _ _ _ ex_p32] ex_payload_at(4)
    by (simp add: ex_fixup_def ex_p32_def)
  ultimately show ?thesis
    using ex_fixup_at by simp
qed

section \<open>The target setter\<close>

text \<open>
  Claim C2, as stated, fails: the payload fields have fixed widths, so a relative
  target that does not fit is cut on the store. Setting \<open>0x200000000\<close> on the
  \<open>ARM64E_AUTH_REBASE\<close> record (32-bit target field), \<open>0x80100000000\<close> on the
  \<open>ARM64E_REBASE\<close> record (bit 43 of the relative target) and \<open>0x1100000000\<close> on the
  \<open>PTR64_REBASE\<close> record (bit 36), each at or above the image base, the getter then
  returns the image base \<open>0x100000000\<close> and not the value set.
\<close>

theorem target_roundtrip_counterexample:
  "rtypes (ex_fixup ARM64E_AUTH_REBASE 2) = ARM64E_AUTH_REBASE
   \<and> fixup_at ex_memory 2 = Some (ex_fixup ARM64E_AUTH_REBASE 2)
   \<and> imagebase (ex_fixup ARM64E_AUTH_REBASE 2) \<le> 0x200000000
   \<and> map_option fst (target_set 2 0x200000000 ex_memory \<bind> target 2) = Some 0x100000000
   \<and> map_option fst (target_set 2 0x200000000 ex_memory \<bind> target 2) \<noteq> Some 0x200000000
   \<and> rtypes (ex_fixup ARM64E_REBASE 1) = ARM64E_REBASE
   \<and> fixup_at ex_memory 1 = Some (ex_fixup ARM64E_REBASE 1)
   \<and> imagebase (ex_fixup ARM64E_REBASE 1) \<le> 0x80100000000
   \<and> map_option fst (target_set 1 0x80100000000 ex_memory \<bind> target 1) = Some 0x100000000
   \<and> map_option fst (target_set 1 0x80100000000 ex_memory \<bind> target 1) \<noteq> Some 0x80100000000
   \<and> rtypes (ex_fixup PTR64_REBASE 3) = PTR64_REBASE
   \<and> fixup_at ex_memory 3 = Some (ex_fixup PTR64_REBASE 3)
   \<and> imagebase (ex_fixup PTR64_REBASE 3) \<le> 0x1100000000
   \<and> map_option fst (target_set 3 0x1100000000 ex_memory \<bind> target 3) = Some 0x100000000
   \<and> map_option fst (target_set 3 0x1100000000 ex_memory \<bind> target 3) \<noteq> Some 0x1100000000"
  by (simp add: ex_defs run_defs)

text \<open>
  Claim C2, amended. For a record of encoding \<open>ARM64E_REBASE\<close>, \<open>ARM64E_AUTH_REBASE\<close>
  or \<open>PTR64_REBASE\<close> and a value \<open>v\<close> not below the image base, the setter succeeds, and
  the getter then returns \<open>v\<close> exactly if and only if the relative value
  \<open>v - image_base\<close> is representable in the payload: bits 43 to 55 clear for
  \<open>ARM64E_REBASE\<close>, below \<open>2^32\<close> for \<open>ARM64E_AUTH_REBASE\<close>, bits 36 to 55 clear
  for \<open>PTR64_REBASE\<close>.
\<close>

theorem target_roundtrip_iff_representable:
  assumes "fixup_at m this = Some r" and "imagebase r \<le> v"
  shows "(rtypes r = ARM64E_REBASE \<longrightarrow> arm64_rebase_at m (rebase_ptr r) = Some a \<longrightarrow>
           (\<exists>m'. target_set this v m = Some m'
              \<and> (target this m' = Some (v, m')
                   \<longleftrightarrow> take_bit 13 (drop_bit 43 (v - imagebase r)) = 0)))
       \<and> (rtypes r = ARM64E_AUTH_REBASE \<longrightarrow>
           arm64_auth_rebase_at m (rebase_ptr r) = Some b \<longrightarrow>
           (\<exists>m'. target_set this v m = Some m'
              \<and> (target this m' = Some (v, m') \<longleftrightarrow> v - imagebase r < 2 ^ 32)))
       \<and> (rtypes r = PTR64_REBASE \<longrightarrow> p64_rebase_at m (rebase_ptr r) = Some c \<longrightarrow>
           (\<exists>m'. target_set this v m = Some m'
              \<and> (target this m' = Some (v, m')
                   \<longleftrightarrow> take_bit 20 (drop_bit 36 (v - imagebase r)) = 0)))"
  using assms
  by (simp add: target_set_def target_def fixup_at_store_payload payload_store_payload
      arm64_rebase_at_def arm64_auth_rebase_at_def p64_rebase_at_def
      base_plus_eq unpack_pack_arm64e unpack_pack_64 auth_store_load)

theorem target_roundtrip_iff_representable_witness:
  "fixup_at ex_memory 1 = Some (ex_fixup ARM64E_REBASE 1)
   \<and> fixup_at ex_memory 2 = Some (ex_fixup ARM64E_AUTH_REBASE 2)
   \<and> fixup_at ex_memory 3 = Some (ex_fixup PTR64_REBASE 3)
   \<and> imagebase (ex_fixup ARM64E_REBASE 1) \<le> 0xFF00000100005000
   \<and> imagebase (ex_fixup ARM64E_AUTH_REBASE 2) \<le> 0x1FFFFFFFF
   \<and> imagebase (ex_fixup PTR64_REBASE 3) \<le> 0x100005000
   \<and> map_option fst (target_set 1 0xFF00000100005000 ex_memory \<bind> target 1)
        = Some 0xFF00000100005000
   \<and> map_option fst (target_set 2 0x1FFFFFFFF ex_memory \<bind> target 2) = Some 0x1FFFFFFFF
   \<and> map_option fst (target_set 3 0x100005000 ex_memory \<bind> target 3) = Some 0x100005000"
proof -
  have b1: "imagebase (ex_fixup ARM64E_REBASE 1) \<le> 0xFF00000100005000"
    and b2: "imagebase (ex_fixup ARM64E_AUTH_REBASE 2) \<le> 0x1FFFFFFFF"
    and b3: "imagebase (ex_fixup PTR64_REBASE 3) \<le> 0x100005000"
    by (simp_all add: ex_fixup_def)
  have "map_option fst (target_set 1 0xFF00000100005000 ex_memory \<bind> target 1)
          = Some 0xFF00000100005000"
    using target_roundtrip_iff_representable [OF ex_fixup_at(1) b1, of ex_arm64e]
      ex_payload_at(1)
    by (auto simp add: ex_fixup_def)
  moreover have "map_option fst (target_set 2 0x1FFFFFFFF ex_memory \<bind> target 2)
          = Some 0x1FFFFFFFF"
    using target_roundtrip_iff_representable [OF ex_fixup_at(2) b2, of _ ex_auth]
      ex_payload_at(2)
    by (auto simp add: ex_fixup_def)
  moreover have "map_option fst (target_set 3 0x100005000 ex_memory \<bind> target 3)
          = Some 0x100005000"
    using target_roundtrip_iff_representable [OF ex_fixup_at(3) b3, of _ _ ex_p64]
      ex_payload_at(3)
    by (auto simp add: ex_fixup_def)
  ultimately show ?thesis
    using ex_fixup_at b1 b2 b3 by simp
qed

text \<open>
  Claim C5. For a record of encoding \<open>ARM64E_REBASE\<close>, \<open>ARM64E_AUTH_REBASE\<close> or
  \<open>PTR64_REBASE\<close>, the setter converts its argument to relative space, subtracting the
  image base when the argument is not below it and passing it through unchanged
  otherwise, and packs that relative value into the payload the record points to.
\<close>

theorem target_set_packs_relative:
  assumes "fixup_at m this = Some r"
    and "rel = (if imagebase r \<le> v then v - imagebase r else v)"
  shows "(rtypes r = ARM64E_REBASE \<longrightarrow> arm64_rebase_at m (rebase_ptr r) = Some a \<longrightarrow>
           target_set this v m =
             Some (store_payload (rebase_ptr r) (Arm64eRebase (pack_target_arm64e a rel)) m)
           \<and> arm64_rebase_at
                (store_payload (rebase_ptr r) (Arm64eRebase (pack_target_arm64e a rel)) m)
                (rebase_ptr r) = Some (pack_target_arm64e a rel))
       \<and> (rtypes r = ARM64E_AUTH_REBASE \<longrightarrow>
           arm64_auth_rebase_at m (rebase_ptr r) = Some b \<longrightarrow>
           target_set this v m =
             Some (store_payload (rebase_ptr r)
                     (Arm64eAuthRebase (b\<lparr>auth_target := ucast rel\<rparr>)) m)
           \<and> arm64_auth_rebase_at
                (store_payload (rebase_ptr r)
                   (Arm64eAuthRebase (b\<lparr>auth_target := ucast rel\<rparr>)) m)
                (rebase_ptr r) = Some (b\<lparr>auth_target := ucast rel\<rparr>))
       \<and> (rtypes r = PTR64_REBASE \<longrightarrow> p64_rebase_at m (rebase_ptr r) = Some c \<longrightarrow>
           target_set this v m =
             Some (store_payload (rebase_ptr r) (Ptr64Rebase (pack_target_64 c rel)) m)
           \<and> p64_rebase_at
                (store_payload (rebase_ptr r) (Ptr64Rebase (pack_target_64 c rel)) m)
                (rebase_ptr r) = Some (pack_target_64 c rel))"
  using assms
  by (simp add: target_set_def payload_store_payload arm64_rebase_at_def
      arm64_auth_rebase_at_def p64_rebase_at_def)

theorem target_set_packs_relative_witness:
  "fixup_at ex_memory 3 = Some (ex_fixup PTR64_REBASE 3)
   \<and> (0x5000::64 word) = (if imagebase (ex_fixup PTR64_REBASE 3) \<le> 0x100005000
                            then 0x100005000 - imagebase (ex_fixup PTR64_REBASE 3)
                            else 0x100005000)
   \<and> (0x800::64 word) = (if imagebase (ex_fixup PTR64_REBASE 3) \<le> 0x800
                           then 0x800 - imagebase (ex_fixup PTR64_REBASE 3) else 0x800)
   \<and> target_set 3 0x100005000 ex_memory =
        Some (store_payload 3 (Ptr64Rebase (ex_p64\<lparr>p64_target := 0x5000\<rparr>)) ex_memory)
   \<and> target_set 3 0x800 ex_memory =
        Some (store_payload 3 (Ptr64Rebase (ex_p64\<lparr>p64_target := 0x800\<rparr>)) ex_memory)"
proof -
  have r1: "(0x5000::64 word) = (if imagebase (ex_fixup PTR64_REBASE 3) \<le> 0x100005000
                            then 0x100005000 - imagebase (ex_fixup PTR64_REBASE 3)
                            else 0x100005000)"
    and r2: "(0x800::64 word) = (if imagebase (ex_fixup PTR64_REBASE 3) \<le> 0x800
                           then 0x800 - imagebase (ex_fixup PTR64_REBASE 3) else 0x800)"
    by (simp_all add: ex_fixup_def)
  have p1: "pack_target_64 ex_p64 0x5000 = ex_p64\<lparr>p64_target := 0x5000\<rparr>"
    and p2: "pack_target_64 ex_p64 0x800 = ex_p64\<lparr>p64_target := 0x800\<rparr>"
    by (simp_all add: pack_target_64_def ex_p64_def)
  have "target_set 3 0x100005000 ex_memory =
        Some (store_payload 3 (Ptr64Rebase (ex_p64\<lparr>p64_target := 0x5000\<rparr>)) ex_memory)"
    using target_set_packs_relative [OF ex_fixup_at(3) r1, of _ _ ex_p64] ex_payload_at(3) p1
    by (simp add: ex_fixup_def)
  moreover have "target_set 3 0x800 ex_memory =
        Some (store_payload 3 (Ptr64Rebase (ex_p64\<lparr>p64_target := 0x800\<rparr>)) ex_memory)"
    using target_set_packs_relative [OF ex_fixup_at(3) r2, of _ _ ex_p64] ex_payload_at(3) p2
    by (simp add: ex_fixup_def)
  ultimately show ?thesis
    using ex_fixup_at(3) r1 r2 by simp
qed

text \<open>
  Claim C7. On an \<open>ARM64E_AUTH_REBASE\<close> record the setter rewrites only the target
  field of the payload: diversifier, address-discriminator flag, key selector, the
  next-stride field and the bind and authentication-marker bits stay as they were.
\<close>

theorem auth_target_set_keeps_metadata:
  assumes "fixup_at m this = Some r" and "rtypes r = ARM64E_AUTH_REBASE"
    and "arm64_auth_rebase_at m (rebase_ptr r) = Some x"
  shows "\<exists>m' x'. target_set this v m = Some m'
           \<and> arm64_auth_rebase_at m' (rebase_ptr r) = Some x'
           \<and> auth_diversity x' = auth_diversity x
           \<and> auth_addrDiv x' = auth_addrDiv x
           \<and> auth_key x' = auth_key x
           \<and> auth_next x' = auth_next x
           \<and> auth_bind x' = auth_bind x
           \<and> auth_auth x' = auth_auth x
           \<and> x' = x\<lparr>auth_target := auth_target x'\<rparr>
           \<and> fixups m' = fixups m \<and> messages m' = messages m"
proof -
  define x' where
    "x' = x\<lparr>auth_target := ucast (if imagebase r \<le> v then v - imagebase r else v)\<rparr>"
  define m' where "m' = store_payload (rebase_ptr r) (Arm64eAuthRebase x') m"
  have 1: "target_set this v m = Some m'"
    using assms by (simp add: target_set_def m'_def x'_def)
  have 2: "arm64_auth_rebase_at m' (rebase_ptr r) = Some x'"
    by (simp add: m'_def arm64_auth_rebase_at_def payload_store_payload)
  have 3: "fixups m' = fixups m \<and> messages m' = messages m"
    by (simp add: m'_def store_payload_def)
  have 4: "x' = x\<lparr>auth_target := auth_target x'\<rparr>"
    by (simp add: x'_def)
  have 5: "auth_diversity x' = auth_diversity x \<and> auth_addrDiv x' = auth_addrDiv x
      \<and> auth_key x' = auth_key x \<and> auth_next x' = auth_next x
      \<and> auth_bind x' = auth_bind x \<and> auth_auth x' = auth_auth x"
    by (simp add: x'_def)
  from 1 2 3 4 5 show ?thesis by blast
qed

theorem auth_target_set_keeps_metadata_witness:
  "fixup_at ex_memory 2 = Some (ex_fixup ARM64E_AUTH_REBASE 2)
   \<and> rtypes (ex_fixup ARM64E_AUTH_REBASE 2) = ARM64E_AUTH_REBASE
   \<and> arm64_auth_rebase_at ex_memory 2 = Some ex_auth
   \<and> (map_option auth_diversity (target_set 2 0x100007000 ex_memory \<bind>
         (\<lambda>m'. arm64_auth_rebase_at m' 2))) = Some 0xBEEF"
proof -
  have t: "rtypes (ex_fixup ARM64E_AUTH_REBASE 2) = ARM64E_AUTH_REBASE"
    and p: "rebase_ptr (ex_fixup ARM64E_AUTH_REBASE 2) = 2"
    by (simp_all add: ex_fixup_def)
  from auth_target_set_keeps_metadata [OF ex_fixup_at(2) t ex_payload_at(2), of "0x100007000"]
  obtain m' x' where "target_set 2 0x100007000 ex_memory = Some m'"
    "arm64_auth_rebase_at m' 2 = Some x'" "auth_diversity x' = auth_diversity ex_auth"
    unfolding p by blast
  then have "(map_option auth_diversity (target_set 2 0x100007000 ex_memory \<bind>
         (\<lambda>m'. arm64_auth_rebase_at m' 2))) = Some 0xBEEF"
    by (simp add: ex_auth_def)
  then show ?thesis
    using ex_fixup_at(2) t ex_payload_at(2) p by simp
qed

section \<open>Unknown and unsupported encodings\<close>

text \<open>
  Claim C3. On a record of encoding \<open>UNKNOWN\<close>, and so on a freshly constructed one,
  the getter logs an error and returns \<open>0\<close>, and the setter logs an error and changes
  nothing else: records and payloads are as before, for every value.
\<close>

theorem unknown_target_fails:
  "(fixup_at m this = Some r \<longrightarrow> rtypes r = UNKNOWN \<longrightarrow>
      target this m =
        Some (0, m\<lparr>messages := messages m @ [(LOG_ERR, ''Can't get target: unknown rebase type'')]\<rparr>)
      \<and> target_set this v m =
        Some (m\<lparr>messages := messages m @ [(LOG_ERR, ''Can't set target: unknown rebase type'')]\<rparr>))
   \<and> (m0 = RelocationFixup_init this fmt base m \<longrightarrow>
      target this m0 =
        Some (0, m0\<lparr>messages := messages m0 @ [(LOG_ERR, ''Can't get target: unknown rebase type'')]\<rparr>)
      \<and> target_set this v m0 =
        Some (m0\<lparr>messages := messages m0 @ [(LOG_ERR, ''Can't set target: unknown rebase type'')]\<rparr>))"
  by (simp add: target_def target_set_def LIEF_ERR_def RelocationFixup_init_def
      fixup_at_store_fixup)

theorem unknown_target_fails_witness:
  "fixup_at ex_memory 5 = Some (ex_fixup UNKNOWN 0) \<and> rtypes (ex_fixup UNKNOWN 0) = UNKNOWN
   \<and> target 5 ex_memory =
        Some (0, ex_memory\<lparr>messages := [(LOG_ERR, ''Can't get target: unknown rebase type'')]\<rparr>)
   \<and> target_set 5 0x100002000 ex_memory =
        Some (ex_memory\<lparr>messages := [(LOG_ERR, ''Can't set target: unknown rebase type'')]\<rparr>)"
  using unknown_target_fails [where m = ex_memory and this = 5 and r = "ex_fixup UNKNOWN 0"
      and v = "0x100002000"] ex_fixup_at(5)
  by (simp add: ex_fixup_def ex_memory_def)

text \<open>
  Claim C4. On a \<open>PTR32_REBASE\<close> record the setter logs a warning, not an error, and
  changes nothing else, so the getter afterwards returns what it returned before.
\<close>

theorem ptr32_target_set_ignored:
  assumes "fixup_at m this = Some r" and "rtypes r = PTR32_REBASE"
  shows "target_set this v m =
           Some (m\<lparr>messages := messages m @
             [(LOG_WARN, ''Updating a dyld_chained_ptr_generic32 is not supported yet'')]\<rparr>)
       \<and> map_option fst (target_set this v m \<bind> target this) = map_option fst (target this m)"
  using assms
  by (simp add: target_def target_set_def LIEF_WARN_def at_defs split: option.split chained_ptr.split)

theorem ptr32_target_set_ignored_witness:
  "fixup_at ex_memory 4 = Some (ex_fixup PTR32_REBASE 4)
   \<and> rtypes (ex_fixup PTR32_REBASE 4) = PTR32_REBASE
   \<and> target_set 4 0x100002000 ex_memory =
        Some (ex_memory\<lparr>messages :=
          [(LOG_WARN, ''Updating a dyld_chained_ptr_generic32 is not supported yet'')]\<rparr>)
   \<and> map_option fst (target_set 4 0x100002000 ex_memory \<bind> target 4) = Some 0x100000400
   \<and> map_option fst (target 4 ex_memory) = Some 0x100000400"
proof -
  have t: "rtypes (ex_fixup PTR32_REBASE 4) = PTR32_REBASE"
    by (simp add: ex_fixup_def)
  have e: "messages ex_memory = []"
    by (simp add: ex_memory_def)
  have g: "map_option fst (target 4 ex_memory) = Some 0x100000400"
    by (simp add: target_def ex_fixup_at ex_payload_at t) (simp add: ex_fixup_def ex_p32_def)
  note W = ptr32_target_set_ignored [OF ex_fixup_at(4) t, of "0x100002000"]
  from W have 1: "target_set 4 0x100002000 ex_memory =
        Some (ex_memory\<lparr>messages :=
          [(LOG_WARN, ''Updating a dyld_chained_ptr_generic32 is not supported yet'')]\<rparr>)"
    by (simp only: e append_Nil)
  from W have 2: "map_option fst (target_set 4 0x100002000 ex_memory \<bind> target 4)
                    = map_option fst (target 4 ex_memory)"
    by (rule conjunct2)
  show ?thesis
    using ex_fixup_at(4) t 1 2 g by simp
qed

section \<open>The address accessors\<close>

text \<open>
  Claim C6. \<open>address()\<close> is the image base plus the relative offset, also after any
  sequence of \<open>address(a)\<close> calls, none of which changes the image base; the setter
  stores \<open>a - image_base\<close> with unsigned wrap-around when \<open>a\<close> is below the image base,
  so that \<open>address()\<close> after \<open>address(a)\<close> returns \<open>a\<close>.
\<close>

theorem address_is_base_plus_offset:
  assumes "fixup_at m this = Some r"
  shows "address this m = Some (imagebase r + offset r)
       \<and> (\<exists>m' r'. address_calls this as m = Some m' \<and> fixup_at m' this = Some r'
            \<and> imagebase r' = imagebase r
            \<and> address this m' = Some (imagebase r' + offset r')
            \<and> (as \<noteq> [] \<longrightarrow> offset r' = last as - imagebase r
                           \<and> address this m' = Some (last as)
                           \<and> (last as < imagebase r \<longrightarrow>
                                unat (offset r') = 2 ^ 64 - (unat (imagebase r) - unat (last as)))))"
proof -
  from address_calls_last [OF assms, of as] obtain m' where
    m': "address_calls this as m = Some m'"
      "fixup_at m' this = Some (if as = [] then r else r\<lparr>offset := last as - imagebase r\<rparr>)"
    by blast
  have w: "unat (a - b) = 2 ^ 64 - (unat b - unat a)" if "a < b" for a b :: "64 word"
  proof -
    from that have "unat a < unat b" by (simp add: word_less_nat_alt)
    moreover have "unat b < 2 ^ 64" using unsigned_less [of b] by simp
    ultimately show ?thesis by (simp add: unat_sub_if_size word_size)
  qed
  show ?thesis using assms m' by (auto simp add: address_def w)
qed

theorem address_is_base_plus_offset_witness:
  "fixup_at ex_memory 3 = Some (ex_fixup PTR64_REBASE 3)
   \<and> address 3 ex_memory = Some 0x100004000
   \<and> (address_calls 3 [0x100008000, 0x20] ex_memory \<bind> address 3) = Some 0x20
   \<and> map_option offset
        (address_calls 3 [0x100008000, 0x20] ex_memory \<bind> (\<lambda>m'. fixup_at m' 3))
        = Some 0xFFFFFFFF00000020"
proof -
  note W = address_is_base_plus_offset [OF ex_fixup_at(3), of "[0x100008000, 0x20]"]
  from W have 0: "address 3 ex_memory = Some 0x100004000"
    by (simp add: ex_fixup_def)
  from W obtain m' r' where 1: "address_calls 3 [0x100008000, 0x20] ex_memory = Some m'"
    and 2: "fixup_at m' 3 = Some r'"
    and 3: "offset r' = 0x20 - imagebase (ex_fixup PTR64_REBASE 3)"
    and 4: "address 3 m' = Some 0x20"
    by auto
  from 3 have "offset r' = 0xFFFFFFFF00000020"
    by (simp add: ex_fixup_def)
  with 0 1 2 4 show ?thesis
    using ex_fixup_at(3) by simp
qed

section \<open>Fixed answers\<close>

text \<open>
  Claim C10. \<open>is_pc_relative()\<close> is false and \<open>origin()\<close> is \<open>ORIGIN_CHAINED_FIXUPS\<close> for
  every record, and \<open>pc_relative(b)\<close> changes nothing, so \<open>is_pc_relative()\<close> is still
  false after it.
\<close>

theorem not_pc_relative:
  "is_pc_relative this m = False \<and> origin this m = ORIGIN_CHAINED_FIXUPS
   \<and> pc_relative this b m = m \<and> is_pc_relative this (pc_relative this b m) = False"
  by (simp add: is_pc_relative_def origin_def pc_relative_def)

section \<open>Overwriting a payload\<close>

text \<open>
  Claim C8 on the code. Record \<open>3\<close> of the example memory holds a payload at address
  \<open>3\<close>, and nothing is leaked there, nor after destroying the record. After
  \<open>set\<close> with another payload, and likewise after copy-assigning record \<open>1\<close> to it, the
  new payload sits at address \<open>5\<close> and the former one is still live with no record
  pointing to it; it stays so after the destructor of the record has run.
\<close>

theorem overwrite_leaks_previous_payload:
  "leaked ex_memory = []
   \<and> map_option leaked (RelocationFixup_destroy 3 ex_memory) = Some []
   \<and> map_option payloads (set_64_rebase 3 ex_p64_other ex_memory)
        = Some ((5, Ptr64Rebase ex_p64_other) # payloads ex_memory)
   \<and> map_option leaked (set_64_rebase 3 ex_p64_other ex_memory) = Some [3]
   \<and> map_option leaked (set_64_rebase 3 ex_p64_other ex_memory \<bind> RelocationFixup_destroy 3)
        = Some [3]
   \<and> map_option payloads (operator_assign 3 1 ex_memory)
        = Some ((5, Arm64eRebase ex_arm64e) # payloads ex_memory)
   \<and> map_option leaked (operator_assign 3 1 ex_memory) = Some [3]
   \<and> map_option leaked (operator_assign 3 1 ex_memory \<bind> RelocationFixup_destroy 3)
        = Some [3]"
  by (simp add: ex_memory_def ex_fixup_def life_defs)

section \<open>Equality and copies\<close>

text \<open>
  Claim C9. \<open>a == a\<close> is true without any fingerprint being computed (also where none
  can be); for two records with fingerprints, \<open>a == b\<close> holds if and only if the
  fingerprints are equal; a clone of a record is another record, with a payload of its
  own at another address when the encoding is known, that has the same fingerprint and
  compares equal to the original in both directions; and so does a record the original
  has been copy-assigned to.
\<close>

theorem equality_is_fingerprint_equality:
  "operator_eq H a a m = Some True
   \<and> (Hash_hash H a m = Some ha \<longrightarrow> Hash_hash H b m = Some hb \<longrightarrow>
        operator_eq H a b m = Some (ha = hb))
   \<and> (Hash_hash H a m = Some ha \<longrightarrow>
        (\<exists>c m'. clone a m = Some (c, m') \<and> c \<noteq> a
           \<and> Hash_hash H c m' = Some ha \<and> Hash_hash H a m' = Some ha
           \<and> operator_eq H c a m' = Some True \<and> operator_eq H a c m' = Some True
           \<and> (\<exists>r r'. fixup_at m' a = Some r \<and> fixup_at m' c = Some r'
                 \<and> (rtypes r \<noteq> UNKNOWN \<longrightarrow> rebase_ptr r' \<noteq> rebase_ptr r))))
   \<and> (Hash_hash H a m = Some ha \<longrightarrow> fixup_at m t = Some rt \<longrightarrow> t \<noteq> a \<longrightarrow>
        (\<exists>m'. operator_assign t a m = Some m'
           \<and> Hash_hash H t m' = Some ha \<and> Hash_hash H a m' = Some ha
           \<and> operator_eq H t a m' = Some True \<and> operator_eq H a t m' = Some True))"
proof (intro conjI impI)
  show "operator_eq H a a m = Some True"
    by (simp add: operator_eq_def)
next
  assume "Hash_hash H a m = Some ha" and "Hash_hash H b m = Some hb"
  then show "operator_eq H a b m = Some (ha = hb)"
    by (rule operator_eq_hashes)
next
  assume "Hash_hash H a m = Some ha"
  from clone_equal [OF this] obtain c m' where
    1: "clone a m = Some (c, m')" "c \<noteq> a"
      "Hash_hash H c m' = Some ha" "Hash_hash H a m' = Some ha"
      "\<exists>r r'. fixup_at m' a = Some r \<and> fixup_at m' c = Some r'
                 \<and> (rtypes r \<noteq> UNKNOWN \<longrightarrow> rebase_ptr r' \<noteq> rebase_ptr r)"
    by blast
  from 1(3,4) have "operator_eq H c a m' = Some True" "operator_eq H a c m' = Some True"
    by (simp_all add: operator_eq_hashes)
  with 1 show "\<exists>c m'. clone a m = Some (c, m') \<and> c \<noteq> a
           \<and> Hash_hash H c m' = Some ha \<and> Hash_hash H a m' = Some ha
           \<and> operator_eq H c a m' = Some True \<and> operator_eq H a c m' = Some True
           \<and> (\<exists>r r'. fixup_at m' a = Some r \<and> fixup_at m' c = Some r'
                 \<and> (rtypes r \<noteq> UNKNOWN \<longrightarrow> rebase_ptr r' \<noteq> rebase_ptr r))"
    by blast
next
  assume "Hash_hash H a m = Some ha" and "fixup_at m t = Some rt" and "t \<noteq> a"
  from assign_equal [OF this] obtain m' where
    1: "operator_assign t a m = Some m'"
      "Hash_hash H t m' = Some ha" "Hash_hash H a m' = Some ha"
    by blast
  from 1(2,3) have "operator_eq H t a m' = Some True" "operator_eq H a t m' = Some True"
    by (simp_all add: operator_eq_hashes)
  with 1 show "\<exists>m'. operator_assign t a m = Some m'
           \<and> Hash_hash H t m' = Some ha \<and> Hash_hash H a m' = Some ha
           \<and> operator_eq H t a m' = Some True \<and> operator_eq H a t m' = Some True"
    by blast
qed

theorem equality_is_fingerprint_equality_witness:
  "Hash_hash ex_hasher 3 ex_memory = Some 0x10007C008
   \<and> Hash_hash ex_hasher 1 ex_memory = Some 0x10007C006
   \<and> fixup_at ex_memory 4 = Some (ex_fixup PTR32_REBASE 4)
   \<and> operator_eq ex_hasher 3 1 ex_memory = Some False
   \<and> (\<exists>c m'. clone 3 ex_memory = Some (c, m') \<and> c \<noteq> 3
         \<and> operator_eq ex_hasher c 3 m' = Some True)
   \<and> (\<exists>m'. operator_assign 4 3 ex_memory = Some m'
         \<and> operator_eq ex_hasher 4 3 m' = Some True)"
proof -
  have h3: "Hash_hash ex_hasher 3 ex_memory = Some 0x10007C008"
    and h1: "Hash_hash ex_hasher 1 ex_memory = Some 0x10007C006"
    by (simp_all add: Hash_hash_def payload_of_def ex_memory_def ex_fixup_def at_defs)
  note W = equality_is_fingerprint_equality [where H = ex_hasher and a = 3 and m = ex_memory
      and ha = "0x10007C008" and b = 1 and hb = "0x10007C006" and t = 4
      and rt = "ex_fixup PTR32_REBASE 4"]
  from W h3 h1 have "operator_eq ex_hasher 3 1 ex_memory = Some False"
    by simp
  moreover from W h3 have "\<exists>c m'. clone 3 ex_memory = Some (c, m') \<and> c \<noteq> 3
         \<and> operator_eq ex_hasher c 3 m' = Some True"
    by blast
  moreover from W h3 ex_fixup_at(4) have "\<exists>m'. operator_assign 4 3 ex_memory = Some m'
         \<and> operator_eq ex_hasher 4 3 m' = Some True"
    by auto
  ultimately show ?thesis
    using h3 h1 ex_fixup_at(4) by simp
qed

end
